theory Spec2Isabelle
  imports Complex_Main "HOL-Library.Sublist"
begin

section \<open>The file compressor: data model\<close>

text \<open>
  The library (\<^verbatim>\<open>src/index.ts\<close>) exports five asynchronous operations. Each one resolves
  its two paths, validates, builds one command line as a template string, runs it through
  \<^verbatim>\<open>child_process.exec\<close>, stats the output file and returns its path and size in KB.

  The enumerations are TypeScript string enums; each constructor stands for the enum member
  and the \<open>\<dots>String\<close> function gives the member's string value, which is what a template
  literal interpolates.
\<close>

datatype SupportedCodecs = LIBX264 | LIBX265 | VP9 | GIF

fun codecString :: "SupportedCodecs \<Rightarrow> string" where
  "codecString LIBX264 = ''libx264''"
| "codecString LIBX265 = ''libx265''"
| "codecString VP9 = ''vp9''"
| "codecString GIF = ''gif''"

datatype SoundBitRate = LOW | MEDIUM_RATE | HIGH | VERY_HIGH

fun bitRateString :: "SoundBitRate \<Rightarrow> string" where
  "bitRateString LOW = ''64k''"
| "bitRateString MEDIUM_RATE = ''128k''"
| "bitRateString HIGH = ''192k''"
| "bitRateString VERY_HIGH = ''320k''"

datatype VideoPresets =
  ULTRAFAST | SUPERFAST | VERYFAST | FASTER | FAST | MEDIUM | SLOW | SLOWER | VERYSLOW

fun presetString :: "VideoPresets \<Rightarrow> string" where
  "presetString ULTRAFAST = ''ultrafast''"
| "presetString SUPERFAST = ''superfast''"
| "presetString VERYFAST = ''veryfast''"
| "presetString FASTER = ''faster''"
| "presetString FAST = ''fast''"
| "presetString MEDIUM = ''medium''"
| "presetString SLOW = ''slow''"
| "presetString SLOWER = ''slower''"
| "presetString VERYSLOW = ''veryslow''"

text \<open>
  Option objects. Every field is optional in the source (\<^verbatim>\<open>field?: T\<close>), so every field is
  an \<open>option\<close>: \<open>None\<close> is \<^verbatim>\<open>undefined\<close>. The numeric fields are JavaScript numbers; the
  model takes them as integers, the values the options are documented for.
\<close>

record ScaleOption =
  width :: "int option"
  height :: "int option"

record VideoOptions =
  codec :: "SupportedCodecs option"
  crf :: "int option"
  preset :: "VideoPresets option"
  fps :: "int option"
  scale :: "ScaleOption option"

record AudioOptions =
  bitrate :: "SoundBitRate option"
  quality :: "int option"
  mono :: "bool option"

record CompressResult =
  outputPath :: string
  compressedSizeKB :: real

subsection \<open>Errors\<close>

text \<open>
  A rejected promise is a value \<open>Inl e\<close>. \<open>SystemError\<close> is the error of a failed
  \<^verbatim>\<open>fs.access\<close> or \<^verbatim>\<open>fs.stat\<close> (code, system call, path), \<open>ExecError\<close> the rejection of
  \<^verbatim>\<open>execPromise\<close> with its message, and \<open>Error\<close> an error the library itself creates with
  \<^verbatim>\<open>new Error(message)\<close>. The code of a system error is whatever the system call
  answered; \<open>OtherErrno\<close> carries a code not listed, with its description.
\<close>

datatype errno =
  ENOENT | ENOTDIR | EACCES | ELOOP | ENAMETOOLONG | EROFS | ETXTBSY | OtherErrno string string

datatype error =
  SystemError errno string string
| ExecError string
| Error string

fun errnoText :: "errno \<Rightarrow> string" where
  "errnoText ENOENT = ''ENOENT: no such file or directory''"
| "errnoText ENOTDIR = ''ENOTDIR: not a directory''"
| "errnoText EACCES = ''EACCES: permission denied''"
| "errnoText ELOOP = ''ELOOP: too many symbolic links encountered''"
| "errnoText ENAMETOOLONG = ''ENAMETOOLONG: name too long''"
| "errnoText EROFS = ''EROFS: read-only file system''"
| "errnoText ETXTBSY = ''ETXTBSY: text file is busy''"
| "errnoText (OtherErrno c d) = c @ '': '' @ d"

fun message :: "error \<Rightarrow> string" where
  "message (SystemError c syscall p) = errnoText c @ '', '' @ syscall @ '' '' @ [CHR 0x27] @ p @ [CHR 0x27]"
| "message (ExecError m) = m"
| "message (Error m) = m"

subsection \<open>The world outside: file system and child processes\<close>

text \<open>
  The file system is what \<^verbatim>\<open>fs.access\<close> and \<^verbatim>\<open>fs.stat\<close> can observe of it. Both system
  calls first resolve the path. The resolution fails with the code the system gives
  (\<open>ENOENT\<close> for a missing path, \<open>ENOTDIR\<close> for a path below a regular file, \<open>EACCES\<close> below a
  directory the process may not search, and so on), or it finds a file, of which the model
  keeps whether the process may read it, the code with which writing is refused if it is,
  and the size in bytes. A path exists, for the process, when it resolves.

  The world also records every command line handed to \<^verbatim>\<open>exec\<close>, in order, so that "before
  any process is spawned" is a statement about this list.
\<close>

record inode =
  readable :: bool
  writeDenied :: "errno option"
  fileSize :: nat

record filesystem =
  lookup :: "string \<Rightarrow> errno + inode"

record world =
  fsys :: filesystem
  spawned :: "string list"

text \<open>
  The collaborators the library calls but does not implement are parameters:
  \<^verbatim>\<open>path.resolve\<close>, \<^verbatim>\<open>path.dirname\<close>, and the behaviour of the external tool, which maps
  a command line and a file system to an optional failure message and the file system it
  leaves behind.
\<close>

record env =
  resolve :: "string \<Rightarrow> string"
  dirname :: "string \<Rightarrow> string"
  tool :: "string \<Rightarrow> filesystem \<Rightarrow> string option \<times> filesystem"

datatype access_mode = F_OK | R_OK | W_OK

text \<open>
  \<^verbatim>\<open>fs.access(p, mode)\<close>: the error of the path resolution if it fails; otherwise \<open>F_OK\<close>
  (the default mode) passes, \<open>R_OK\<close> is refused with \<open>EACCES\<close> on a file the process may not
  read, and \<open>W_OK\<close> is refused with the file's own code on a file it may not write.
  \<^verbatim>\<open>fs.stat(p)\<close>: the error of the path resolution, or the size of the file.
\<close>

definition access :: "filesystem \<Rightarrow> string \<Rightarrow> access_mode \<Rightarrow> error option" where
  "access fs p m =
     (case lookup fs p of
        Inl c \<Rightarrow> Some (SystemError c ''access'' p)
      | Inr n \<Rightarrow>
          if m = R_OK \<and> \<not> readable n then Some (SystemError EACCES ''access'' p)
          else if m = W_OK then
            (case writeDenied n of
               Some c \<Rightarrow> Some (SystemError c ''access'' p)
             | None \<Rightarrow> None)
          else None)"

definition stat_size :: "filesystem \<Rightarrow> string \<Rightarrow> error + nat" where
  "stat_size fs p =
     (case lookup fs p of
        Inl c \<Rightarrow> Inl (SystemError c ''stat'' p)
      | Inr n \<Rightarrow> Inr (fileSize n))"

definition execPromise :: "env \<Rightarrow> string \<Rightarrow> world \<Rightarrow> (error + unit) \<times> world" where
  "execPromise e cmd w =
     (case tool e cmd (fsys w) of
        (r, fs') \<Rightarrow>
          ((case r of None \<Rightarrow> Inr () | Some m \<Rightarrow> Inl (ExecError m)),
           \<lparr>fsys = fs', spawned = spawned w @ [cmd]\<rparr>))"

subsection \<open>Strings\<close>

text \<open>
  A template literal turns a number into its decimal numeral
  (\<^verbatim>\<open>Number.prototype.toString\<close> on an integer below \<open>10\<^sup>2\<^sup>1\<close> in magnitude).
\<close>

fun natToString :: "nat \<Rightarrow> string" where
  "natToString n =
     (if n < 10 then [''0123456789'' ! n]
      else natToString (n div 10) @ [''0123456789'' ! (n mod 10)])"

declare natToString.simps [simp del]

definition numberToString :: "int \<Rightarrow> string" where
  "numberToString i = (if i < 0 then ''-'' @ natToString (nat (- i)) else natToString (nat i))"

text \<open>
  Letter case. The \<^verbatim>\<open>i\<close> flag of a regular expression compares characters after
  upper-casing them, and \<^verbatim>\<open>toLowerCase\<close> lower-cases; on the ASCII patterns the library
  matches against, only the ASCII letters matter, and a character outside ASCII never
  becomes an ASCII one that occurs in the patterns.
\<close>

definition toUpperChar :: "char \<Rightarrow> char" where
  "toUpperChar c =
     (let n = (of_char c :: nat) in if 97 \<le> n \<and> n \<le> 122 then char_of (n - 32) else c)"

definition toLowerChar :: "char \<Rightarrow> char" where
  "toLowerChar c =
     (let n = (of_char c :: nat) in if 65 \<le> n \<and> n \<le> 90 then char_of (n + 32) else c)"

definition toLowerCase :: "string \<Rightarrow> string" where
  "toLowerCase s = map toLowerChar s"

definition endsWith :: "string \<Rightarrow> string \<Rightarrow> bool" where
  "endsWith s t = suffix t s"

text \<open>
  \<^verbatim>\<open>/\.(jpg|jpeg|png)$/i.test(s)\<close>: at some position of \<open>s\<close> a dot and one of the three
  alternatives match, letters compared without case, and the match reaches the end of \<open>s\<close>.
\<close>

definition matchesIgnoreCase :: "string \<Rightarrow> string \<Rightarrow> bool" where
  "matchesIgnoreCase pat t = (map toUpperChar t = map toUpperChar pat)"

definition supportedFormats_test :: "string \<Rightarrow> bool" where
  "supportedFormats_test s =
     list_ex (\<lambda>t. list_ex (\<lambda>alt. matchesIgnoreCase (''.'' @ alt) t) [''jpg'', ''jpeg'', ''png''])
       (suffixes s)"

section \<open>Command synthesis\<close>

text \<open>
  Each command is the source's template literal, piece by piece. In the multi-line
  templates of \<^verbatim>\<open>compressVideo\<close> a backslash before a line break is a line continuation
  and contributes nothing, so the pieces of one command are separated by the spaces around
  it; the line break after the opening backtick and the one before the closing backtick
  are part of the string.
\<close>

definition gsCommand :: "string \<Rightarrow> string \<Rightarrow> string" where
  \<open>gsCommand resolvedInputPath resolvedOutputPath =
     ''gs -sDEVICE=pdfwrite -dCompatibilityLevel=1.4 -dPDFSETTINGS=/screen -dNOPAUSE -dQUIET -dBATCH -sOutputFile="''
       @ resolvedOutputPath @ ''" "'' @ resolvedInputPath @ ''"''\<close>

definition magickCommandLossy :: "string \<Rightarrow> string \<Rightarrow> int \<Rightarrow> string" where
  \<open>magickCommandLossy resolvedInputPath resolvedOutputPath q =
     ''magick "'' @ resolvedInputPath @ ''" -quality '' @ numberToString q @ '' -strip "''
       @ resolvedOutputPath @ ''"''\<close>

definition magickCommandLossless :: "string \<Rightarrow> string \<Rightarrow> int \<Rightarrow> string" where
  \<open>magickCommandLossless resolvedInputPath resolvedOutputPath compressionLevel =
     ''magick "'' @ resolvedInputPath @ ''" -strip -define png:compression-level=''
       @ numberToString compressionLevel @ '' "'' @ resolvedOutputPath @ ''"''\<close>

text \<open>
  The defaults of \<^verbatim>\<open>compressVideo\<close>. \<^verbatim>\<open>a || b\<close> takes \<open>b\<close> when \<open>a\<close> is falsy
  (\<^verbatim>\<open>undefined\<close>, and for a number also \<open>0\<close>); \<^verbatim>\<open>a ?? b\<close> takes \<open>b\<close> only when \<open>a\<close> is
  \<^verbatim>\<open>undefined\<close>. The members of the string enums are non-empty strings, hence truthy, and
  an object is always truthy.
\<close>

definition numberOr :: "int option \<Rightarrow> int \<Rightarrow> int" where
  "numberOr a b = (case a of None \<Rightarrow> b | Some n \<Rightarrow> if n = 0 then b else n)"

definition videoCodec :: "VideoOptions \<Rightarrow> SupportedCodecs" where
  "videoCodec options = (case codec options of None \<Rightarrow> LIBX264 | Some c \<Rightarrow> c)"

definition videoCrf :: "VideoOptions \<Rightarrow> int" where
  "videoCrf options =
     (case crf options of
        None \<Rightarrow> (if videoCodec options = VP9 then 30 else 28)
      | Some n \<Rightarrow> n)"

definition videoPreset :: "VideoOptions \<Rightarrow> VideoPresets" where
  "videoPreset options = (case preset options of None \<Rightarrow> MEDIUM | Some p \<Rightarrow> p)"

definition videoFps :: "VideoOptions \<Rightarrow> string" where
  "videoFps options =
     (case fps options of
        None \<Rightarrow> []
      | Some n \<Rightarrow> if n = 0 then [] else ''-r '' @ numberToString n)"

definition videoScale :: "VideoOptions \<Rightarrow> string" where
  "videoScale options =
     (case scale options of
        None \<Rightarrow> []
      | Some sc \<Rightarrow>
          ''-vf scale='' @ numberToString (numberOr (width sc) (- 1)) @ '':''
            @ numberToString (numberOr (height sc) (- 1)))"

definition ffmpegCommandVideo :: "string \<Rightarrow> string \<Rightarrow> VideoOptions \<Rightarrow> error + string" where
  \<open>ffmpegCommandVideo resolvedInputPath resolvedOutputPath options =
     (let c = videoCodec options in
      if c = LIBX264 \<or> c = LIBX265 then
        Inr (''\<newline>        ffmpeg -i "'' @ resolvedInputPath @ ''"         -c:v '' @ codecString c
             @ '' -crf '' @ numberToString (videoCrf options)
             @ '' -preset '' @ presetString (videoPreset options)
             @ ''         -c:a aac -b:a 128k         '' @ videoFps options @ '' '' @ videoScale options
             @ ''         -movflags +faststart         "'' @ resolvedOutputPath @ ''"\<newline>      '')
      else if c = VP9 then
        Inr (''\<newline>        ffmpeg -i "'' @ resolvedInputPath @ ''"         -c:v libvpx-vp9 -crf ''
             @ numberToString (videoCrf options)
             @ '' -b:v 0         -c:a libopus -b:a 128k         '' @ videoFps options @ '' ''
             @ videoScale options @ ''         "'' @ resolvedOutputPath @ ''"\<newline>      '')
      else if c = GIF then
        Inr (''\<newline>        ffmpeg -i "'' @ resolvedInputPath
             @ ''"         -vf "fps=15,scale=640:-1:flags=lanczos,split[s0][s1];[s0]palettegen[p];[s1][p]paletteuse"         -loop 0         "''
             @ resolvedOutputPath @ ''"\<newline>      '')
      else Inl (Error ''Unsupported codec''))\<close>

text \<open>The defaults and the command of \<^verbatim>\<open>compressMP3\<close>.\<close>

definition audioBitrate :: "AudioOptions \<Rightarrow> string" where
  "audioBitrate options = (case bitrate options of None \<Rightarrow> ''128k'' | Some b \<Rightarrow> bitRateString b)"

definition audioQuality :: "AudioOptions \<Rightarrow> int" where
  "audioQuality options = (case quality options of None \<Rightarrow> 4 | Some q \<Rightarrow> q)"

definition audioMono :: "AudioOptions \<Rightarrow> string" where
  "audioMono options = (if mono options = Some True then ''-ac 1'' else [])"

definition audioMode :: "AudioOptions \<Rightarrow> string" where
  "audioMode options =
     (if bitrate options \<noteq> None then ''-b:a '' @ audioBitrate options
      else ''-q:a '' @ numberToString (audioQuality options))"

definition ffmpegCommandMP3 :: "string \<Rightarrow> string \<Rightarrow> AudioOptions \<Rightarrow> string" where
  \<open>ffmpegCommandMP3 resolvedInputPath resolvedOutputPath options =
     ''ffmpeg -i "'' @ resolvedInputPath @ ''" -c:a libmp3lame '' @ audioMode options @ '' ''
       @ audioMono options @ '' -y "'' @ resolvedOutputPath @ ''"''\<close>

section \<open>The five operations\<close>

text \<open>
  An operation takes the world and returns the settled promise (\<open>Inl\<close> the rejection,
  \<open>Inr\<close> the result) with the world it leaves. The steps are in the source's order; a step
  that rejects ends the operation. The \<^verbatim>\<open>console\<close> output of the \<^verbatim>\<open>catch\<close> blocks is not
  part of the model.
\<close>

text \<open>
  The last two steps of every operation: \<^verbatim>\<open>fs.stat\<close> on the resolved output path, and the
  result object with the size divided by 1024.
\<close>

definition measureOutput :: "string \<Rightarrow> world \<Rightarrow> (error + CompressResult) \<times> world" where
  "measureOutput resolvedOutputPath w =
     (case stat_size (fsys w) resolvedOutputPath of
        Inl e \<Rightarrow> (Inl e, w)
      | Inr sz \<Rightarrow>
          (Inr \<lparr>outputPath = resolvedOutputPath, compressedSizeKB = real sz / 1024\<rparr>, w))"

definition compressPDF ::
  "env \<Rightarrow> string \<Rightarrow> string \<Rightarrow> world \<Rightarrow> (error + CompressResult) \<times> world" where
  "compressPDF e inputPath outputPathArg w =
     (let resolvedInputPath = resolve e inputPath;
          resolvedOutputPath = resolve e outputPathArg
      in case execPromise e (gsCommand resolvedInputPath resolvedOutputPath) w of
           (Inl err, w1) \<Rightarrow> (Inl err, w1)
         | (Inr u, w1) \<Rightarrow> measureOutput resolvedOutputPath w1)"

definition unsupportedFormat :: error where
  "unsupportedFormat = Error ''Unsupported file format. Use JPG, JPEG, or PNG.''"

text \<open>
  \<^verbatim>\<open>compressImageLossy\<close> and \<^verbatim>\<open>compressImageLossless\<close> are the same code, line for line,
  but for the command they build and the name of their third parameter (default 75);
  \<open>compressImage\<close> is that common code, with the command as a parameter.
\<close>

definition compressImage ::
  "(string \<Rightarrow> string \<Rightarrow> string) \<Rightarrow> env \<Rightarrow> string \<Rightarrow> string \<Rightarrow> world
     \<Rightarrow> (error + CompressResult) \<times> world" where
  "compressImage magickCommand e inputPath outputPathArg w =
     (let resolvedInputPath = resolve e inputPath;
          resolvedOutputPath = resolve e outputPathArg;
          outputDir = dirname e resolvedOutputPath
      in if \<not> supportedFormats_test resolvedInputPath then (Inl unsupportedFormat, w)
         else case access (fsys w) resolvedInputPath R_OK of
           Some err \<Rightarrow> (Inl err, w)
         | None \<Rightarrow>
          (case access (fsys w) outputDir W_OK of
             Some err \<Rightarrow> (Inl err, w)
           | None \<Rightarrow>
              (case execPromise e (magickCommand resolvedInputPath resolvedOutputPath) w of
                 (Inl magickError, w1) \<Rightarrow>
                   (Inl (Error (''Failed to compress image: '' @ message magickError)), w1)
               | (Inr u, w1) \<Rightarrow> measureOutput resolvedOutputPath w1)))"

definition compressImageLossy ::
  "env \<Rightarrow> string \<Rightarrow> string \<Rightarrow> int option \<Rightarrow> world \<Rightarrow> (error + CompressResult) \<times> world" where
  "compressImageLossy e inputPath outputPathArg qualityArg w =
     (let q = (case qualityArg of None \<Rightarrow> 75 | Some n \<Rightarrow> n)
      in compressImage (\<lambda>i out. magickCommandLossy i out q) e inputPath outputPathArg w)"

definition compressImageLossless ::
  "env \<Rightarrow> string \<Rightarrow> string \<Rightarrow> int option \<Rightarrow> world \<Rightarrow> (error + CompressResult) \<times> world" where
  "compressImageLossless e inputPath outputPathArg compressionLevelArg w =
     (let compressionLevel = (case compressionLevelArg of None \<Rightarrow> 75 | Some n \<Rightarrow> n)
      in compressImage (\<lambda>i out. magickCommandLossless i out compressionLevel)
           e inputPath outputPathArg w)"

text \<open>
  The \<^verbatim>\<open>catch\<close> block of \<^verbatim>\<open>compressVideo\<close> and \<^verbatim>\<open>compressMP3\<close>: whatever the \<^verbatim>\<open>try\<close>
  block throws is thrown again as a new \<open>Error\<close> whose message is a label followed by the
  message of the original. In both operations the checks on the input come before the
  \<^verbatim>\<open>try\<close> block, so their errors are not wrapped.
\<close>

definition wrapError :: "string \<Rightarrow> (error + 'a) \<times> world \<Rightarrow> (error + 'a) \<times> world" where
  "wrapError label r =
     (case r of
        (Inl err, w) \<Rightarrow> (Inl (Error (label @ message err)), w)
      | (Inr v, w) \<Rightarrow> (Inr v, w))"

definition compressVideo ::
  "env \<Rightarrow> string \<Rightarrow> string \<Rightarrow> VideoOptions \<Rightarrow> world \<Rightarrow> (error + CompressResult) \<times> world" where
  "compressVideo e inputPath outputPathArg options w =
     (let resolvedInputPath = resolve e inputPath;
          resolvedOutputPath = resolve e outputPathArg
      in case access (fsys w) resolvedInputPath F_OK of
           Some err \<Rightarrow> (Inl err, w)
         | None \<Rightarrow>
             wrapError ''Video compression failed: ''
               (case ffmpegCommandVideo resolvedInputPath resolvedOutputPath options of
                  Inl err \<Rightarrow> (Inl err, w)
                | Inr ffmpegCommand \<Rightarrow>
                    (case execPromise e ffmpegCommand w of
                       (Inl err, w1) \<Rightarrow> (Inl err, w1)
                     | (Inr u, w1) \<Rightarrow> measureOutput resolvedOutputPath w1)))"

definition notMP3 :: error where
  "notMP3 = Error ''Input file must be an MP3.''"

definition compressMP3 ::
  "env \<Rightarrow> string \<Rightarrow> string \<Rightarrow> AudioOptions \<Rightarrow> world \<Rightarrow> (error + CompressResult) \<times> world" where
  "compressMP3 e inputPath outputPathArg options w =
     (let resolvedInputPath = resolve e inputPath;
          resolvedOutputPath = resolve e outputPathArg
      in case access (fsys w) resolvedInputPath F_OK of
           Some err \<Rightarrow> (Inl err, w)
         | None \<Rightarrow>
             if \<not> endsWith (toLowerCase resolvedInputPath) ''.mp3'' then (Inl notMP3, w)
             else
               wrapError ''MP3 compression failed: ''
                 (case execPromise e
                         (ffmpegCommandMP3 resolvedInputPath resolvedOutputPath options) w of
                    (Inl err, w1) \<Rightarrow> (Inl err, w1)
                  | (Inr u, w1) \<Rightarrow> measureOutput resolvedOutputPath w1))"

section \<open>Notions of the specification\<close>

text \<open>
  The specification speaks of the extension of a path and of quoted tokens; the source has
  neither notion, so they are defined here from the specification's words, to be compared
  with what the code computes. The extension of a path is the text from the last dot of its
  last component on (empty when that component has no dot).
\<close>

definition basename_of :: "string \<Rightarrow> string" where
  "basename_of p = rev (takeWhile (\<lambda>c. c \<noteq> CHR ''/'') (rev p))"

definition spec_extension :: "string \<Rightarrow> string" where
  "spec_extension p =
     (let b = basename_of p in
      if CHR ''.'' \<in> set b then CHR ''.'' # rev (takeWhile (\<lambda>c. c \<noteq> CHR ''.'') (rev b))
      else [])"

definition quoted :: "string \<Rightarrow> string" where
  "quoted p = [CHR 0x22] @ p @ [CHR 0x22]"



section \<open>Sample environments\<close>

text \<open>
  Concrete collaborators for the examples: \<^verbatim>\<open>path.resolve\<close> in the working directory
  \<^verbatim>\<open>/work\<close> on paths that need no normalisation, \<^verbatim>\<open>path.dirname\<close> of an absolute path
  with at least two components, a tool that fails without touching the file system, and a
  tool that exits with status 0 after writing \<open>n\<close> bytes to the file \<open>out\<close>. In the file
  system \<open>files present unreadable\<close> the listed paths resolve and every other path is
  missing; \<open>failing_at p c\<close> makes the resolution of \<open>p\<close> fail with the code \<open>c\<close>.
\<close>

definition cwd_resolve :: "string \<Rightarrow> string" where
  "cwd_resolve p = (if take 1 p = ''/'' then p else ''/work/'' @ p)"

definition parent_dir :: "string \<Rightarrow> string" where
  "parent_dir p = rev (drop 1 (dropWhile (\<lambda>c. c \<noteq> CHR ''/'') (rev p)))"

definition tool_writes ::
  "string \<Rightarrow> nat \<Rightarrow> string \<Rightarrow> filesystem \<Rightarrow> string option \<times> filesystem" where
  "tool_writes out n cmd fs =
     (None,
      fs\<lparr>lookup := (lookup fs)(out := Inr \<lparr>readable = True, writeDenied = None, fileSize = n\<rparr>)\<rparr>)"

definition tool_fails :: "string \<Rightarrow> filesystem \<Rightarrow> string option \<times> filesystem" where
  "tool_fails cmd fs = (Some ''Command failed'', fs)"

definition files :: "string list \<Rightarrow> string list \<Rightarrow> filesystem" where
  "files present unreadable =
     \<lparr>lookup = (\<lambda>p. if p \<in> set present
                      then Inr \<lparr>readable = p \<notin> set unreadable, writeDenied = None, fileSize = 0\<rparr>
                      else Inl ENOENT)\<rparr>"

definition failing_at :: "string \<Rightarrow> errno \<Rightarrow> filesystem \<Rightarrow> filesystem" where
  "failing_at p c fs = fs\<lparr>lookup := (lookup fs)(p := Inl c)\<rparr>"

definition failing_env :: env where
  "failing_env = \<lparr>resolve = cwd_resolve, dirname = parent_dir, tool = tool_fails\<rparr>"

definition writing_env :: "string \<Rightarrow> nat \<Rightarrow> env" where
  "writing_env out n = \<lparr>resolve = cwd_resolve, dirname = parent_dir, tool = tool_writes out n\<rparr>"

definition start :: "filesystem \<Rightarrow> world" where
  "start fs = \<lparr>fsys = fs, spawned = []\<rparr>"

section \<open>Validation before the process is spawned\<close>

lemma compressVideo_unresolved:
  assumes "lookup (fsys w) (resolve e inputPath) = Inl c"
  shows "compressVideo e inputPath out options w =
           (Inl (SystemError c ''access'' (resolve e inputPath)), w)"
  using assms by (simp add: compressVideo_def access_def)

lemma compressPDF_run:
  "compressPDF e inputPath out w =
     (case tool e (gsCommand (resolve e inputPath) (resolve e out)) (fsys w) of
        (failure, fs') \<Rightarrow>
          ((case failure of
              Some m \<Rightarrow> Inl (ExecError m)
            | None \<Rightarrow>
               (case lookup fs' (resolve e out) of
                  Inl c \<Rightarrow> Inl (SystemError c ''stat'' (resolve e out))
                | Inr n \<Rightarrow>
                    Inr \<lparr>outputPath = resolve e out,
                         compressedSizeKB = real (fileSize n) / 1024\<rparr>)),
           \<lparr>fsys = fs',
            spawned = spawned w @ [gsCommand (resolve e inputPath) (resolve e out)]\<rparr>))"
  by (simp add: compressPDF_def execPromise_def measureOutput_def stat_size_def Let_def
      split: prod.splits sum.splits option.splits)


text \<open>
  Claim C1, as stated, fails for \<^verbatim>\<open>compressPDF\<close>: it makes no check of its own. With a
  missing input the Ghostscript command is spawned all the same, and the error that comes
  back is the one of the child process.
\<close>

theorem C1_counterexample:
  "lookup (fsys (start (files [''/work''] []))) (resolve failing_env ''missing.pdf'') = Inl ENOENT \<and>
   compressPDF failing_env ''missing.pdf'' ''out.pdf'' (start (files [''/work''] [])) =
     (Inl (ExecError ''Command failed''),
      \<lparr>fsys = files [''/work''] [],
       spawned = [gsCommand ''/work/missing.pdf'' ''/work/out.pdf'']\<rparr>)"
  by (simp add: compressPDF_def execPromise_def failing_env_def tool_fails_def start_def
      cwd_resolve_def files_def)

text \<open>
  Claim C1, amended: for every input path whose resolved form does not resolve to a file,
  \<^verbatim>\<open>compressVideo\<close> rejects with the error the existence check (\<^verbatim>\<open>fs.access\<close> on the resolved
  input path) raises, with the code the system gave, and leaves the world as it was, so no
  process has been spawned and no file touched. \<^verbatim>\<open>compressPDF\<close> checks nothing: whatever
  the state of the input, it hands the Ghostscript command on the resolved paths to the
  shell first, and it fails only with the error of that process or, after the process has
  succeeded, with the error of the \<^verbatim>\<open>stat\<close> of the output.
\<close>

theorem C1_existence_check:
  "(lookup (fsys w) (resolve e inputPath) = Inl c \<longrightarrow>
      compressVideo e inputPath out options w =
        (Inl (SystemError c ''access'' (resolve e inputPath)), w)) \<and>
   compressPDF e inputPath out w =
     (case tool e (gsCommand (resolve e inputPath) (resolve e out)) (fsys w) of
        (failure, fs') \<Rightarrow>
          ((case failure of
              Some m \<Rightarrow> Inl (ExecError m)
            | None \<Rightarrow>
               (case lookup fs' (resolve e out) of
                  Inl c \<Rightarrow> Inl (SystemError c ''stat'' (resolve e out))
                | Inr n \<Rightarrow>
                    Inr \<lparr>outputPath = resolve e out,
                         compressedSizeKB = real (fileSize n) / 1024\<rparr>)),
           \<lparr>fsys = fs',
            spawned = spawned w @ [gsCommand (resolve e inputPath) (resolve e out)]\<rparr>))"
  using compressVideo_unresolved [of w e inputPath c out options]
    compressPDF_run [of e inputPath out w]
  by blast

text \<open>
  The amended claim at a missing \<^verbatim>\<open>missing.mp4\<close> (\<open>ENOENT\<close>) and at \<^verbatim>\<open>file.txt/x.mp4\<close> below a
  regular file (\<open>ENOTDIR\<close>).
\<close>

theorem C1_existence_check_witness:
  "compressVideo failing_env ''missing.mp4'' ''out.mp4''
      \<lparr>codec = None, crf = None, preset = None, fps = None, scale = None\<rparr>
      (start (files [''/work''] [])) =
     (Inl (SystemError ENOENT ''access'' ''/work/missing.mp4''), start (files [''/work''] [])) \<and>
   compressVideo failing_env ''file.txt/x.mp4'' ''out.mp4''
      \<lparr>codec = None, crf = None, preset = None, fps = None, scale = None\<rparr>
      (start (failing_at ''/work/file.txt/x.mp4'' ENOTDIR (files [''/work'', ''/work/file.txt''] []))) =
     (Inl (SystemError ENOTDIR ''access'' ''/work/file.txt/x.mp4''),
      start (failing_at ''/work/file.txt/x.mp4'' ENOTDIR (files [''/work'', ''/work/file.txt''] []))) \<and>
   compressPDF failing_env ''missing.mp4'' ''out.mp4'' (start (files [''/work''] [])) =
     (Inl (ExecError ''Command failed''),
      \<lparr>fsys = files [''/work''] [],
       spawned = [gsCommand ''/work/missing.mp4'' ''/work/out.mp4'']\<rparr>)"
proof -
  have a: "lookup (fsys (start (files [''/work''] []))) (resolve failing_env ''missing.mp4'')
      = Inl ENOENT"
    by (simp add: failing_env_def start_def cwd_resolve_def files_def)
  have b: "lookup (fsys (start (failing_at ''/work/file.txt/x.mp4'' ENOTDIR
        (files [''/work'', ''/work/file.txt''] [])))) (resolve failing_env ''file.txt/x.mp4'')
      = Inl ENOTDIR"
    by (simp add: failing_env_def start_def cwd_resolve_def failing_at_def)
  show ?thesis
    using C1_existence_check [of "start (files [''/work''] [])" failing_env "''missing.mp4''"
        ENOENT "''out.mp4''"]
      C1_existence_check [of "start (failing_at ''/work/file.txt/x.mp4'' ENOTDIR
        (files [''/work'', ''/work/file.txt''] []))" failing_env "''file.txt/x.mp4''"
        ENOTDIR "''out.mp4''"]
      a b
    by (simp add: failing_env_def start_def cwd_resolve_def tool_fails_def)
qed

section \<open>Letter case and extensions\<close>

text \<open>
  Upper-casing identifies the same pairs of characters as lower-casing does, so the
  case-insensitive match of the regular expression is equality of the lower-cased strings;
  and a path ends with \<open>.jpg\<close>, \<open>.jpeg\<close>, \<open>.png\<close> or \<open>.mp3\<close> exactly when that is its extension.
\<close>

lemma of_char_toUpperChar:
  "(of_char (toUpperChar c) :: nat) =
     (if 97 \<le> (of_char c :: nat) \<and> (of_char c :: nat) \<le> 122 then of_char c - 32 else of_char c)"
proof -
  have "(of_char c :: nat) < 256"
    by (metis of_char_mod_256 mod_less_divisor zero_less_numeral)
  then have "((of_char c :: nat) - 32) mod 256 = of_char c - 32"
    by (simp add: less_imp_diff_less)
  then show ?thesis
    by (simp add: toUpperChar_def Let_def)
qed

lemma of_char_toLowerChar:
  "(of_char (toLowerChar c) :: nat) =
     (if 65 \<le> (of_char c :: nat) \<and> (of_char c :: nat) \<le> 90 then of_char c + 32 else of_char c)"
  by (simp add: toLowerChar_def Let_def)

lemma case_arith:
  "((if 97 \<le> n \<and> n \<le> 122 then n - 32 else n) = (if 97 \<le> m \<and> m \<le> 122 then m - 32 else m))
   \<longleftrightarrow> ((if 65 \<le> n \<and> n \<le> 90 then n + 32 else n) = (if 65 \<le> m \<and> m \<le> 90 then m + 32 else m))"
  for n m :: nat
  by (auto split: if_splits)

lemma upper_eq_iff_lower_eq:
  "toUpperChar c = toUpperChar d \<longleftrightarrow> toLowerChar c = toLowerChar d"
proof -
  have u: "toUpperChar c = toUpperChar d \<longleftrightarrow>
      (of_char (toUpperChar c) :: nat) = of_char (toUpperChar d)"
    by simp
  have l: "toLowerChar c = toLowerChar d \<longleftrightarrow>
      (of_char (toLowerChar c) :: nat) = of_char (toLowerChar d)"
    by simp
  show ?thesis
    unfolding u l of_char_toUpperChar of_char_toLowerChar
    by (rule case_arith)
qed

lemma suffix_basename_of: "suffix (basename_of p) p"
proof -
  have "rev p = takeWhile (\<lambda>c. c \<noteq> CHR ''/'') (rev p) @ dropWhile (\<lambda>c. c \<noteq> CHR ''/'') (rev p)"
    by simp
  then have "p = rev (dropWhile (\<lambda>c. c \<noteq> CHR ''/'') (rev p)) @ basename_of p"
    unfolding basename_of_def by (metis rev_append rev_rev_ident)
  then show ?thesis by (metis suffixI)
qed

lemma last_dot_suffix:
  assumes "x \<in> set b"
  shows "suffix (x # rev (takeWhile (\<lambda>c. c \<noteq> x) (rev b))) b"
proof -
  let ?P = "\<lambda>c. c \<noteq> x"
  from assms have ne: "dropWhile ?P (rev b) \<noteq> []"
    by (simp add: dropWhile_eq_Nil_conv) 
  then have "hd (dropWhile ?P (rev b)) = x"
    using hd_dropWhile [of ?P "rev b"] by simp
  with ne obtain tl where d: "dropWhile ?P (rev b) = x # tl"
    by (cases "dropWhile ?P (rev b)") auto
  have "rev b = takeWhile ?P (rev b) @ dropWhile ?P (rev b)" by simp
  then have "rev b = takeWhile ?P (rev b) @ x # tl" using d by simp
  then have "b = rev tl @ x # rev (takeWhile ?P (rev b))"
    by (metis rev_append rev.simps(2) rev_rev_ident append_assoc append_Cons append_Nil)
  then show ?thesis by (metis suffixI)
qed

lemma suffix_spec_extension: "suffix (spec_extension p) p"
  using last_dot_suffix [of "CHR ''.''" "basename_of p"] suffix_basename_of [of p]
  by (auto simp: spec_extension_def Let_def intro: suffix_order.trans)

lemma spec_extension_of_suffix:
  assumes "suffix (CHR ''.'' # r) q" and "CHR ''.'' \<notin> set r" and "CHR ''/'' \<notin> set r"
  shows "spec_extension q = CHR ''.'' # r"
proof -
  from assms(1) obtain pre where q: "q = pre @ CHR ''.'' # r" by (auto simp: suffix_def)
  let ?S = "\<lambda>c. c \<noteq> CHR ''/''"
  let ?D = "\<lambda>c. c \<noteq> CHR ''.''"
  have rq: "rev q = rev r @ CHR ''.'' # rev pre" by (simp add: q)
  have "takeWhile ?S (rev q) = rev r @ takeWhile ?S (CHR ''.'' # rev pre)"
    unfolding rq using assms(3) by (intro takeWhile_append2) auto
  then have b: "basename_of q = rev (takeWhile ?S (rev pre)) @ CHR ''.'' # r"
    by (simp add: basename_of_def)
  have "takeWhile ?D (rev (basename_of q)) = rev r"
    unfolding b using assms(2) by (auto simp add: takeWhile_tail)
  then show ?thesis
    by (simp add: spec_extension_def Let_def b)
qed

lemma spec_extension_eq_iff:
  assumes "CHR ''.'' \<notin> set r" and "CHR ''/'' \<notin> set r"
  shows "spec_extension q = CHR ''.'' # r \<longleftrightarrow> suffix (CHR ''.'' # r) q"
  using spec_extension_of_suffix [OF _ assms] suffix_spec_extension [of q] by metis

lemma toLowerChar_eq_slash: "toLowerChar c = CHR ''/'' \<longleftrightarrow> c = CHR ''/''"
proof -
  have "toLowerChar c = CHR ''/'' \<longleftrightarrow> (of_char (toLowerChar c) :: nat) = of_char CHR ''/''"
    by (simp only: of_char_eq_iff)
  also have "\<dots> \<longleftrightarrow> (of_char c :: nat) = of_char CHR ''/''"
    unfolding of_char_toLowerChar by (auto split: if_splits)
  also have "\<dots> \<longleftrightarrow> c = CHR ''/''" by (simp only: of_char_eq_iff)
  finally show ?thesis .
qed

lemma toLowerChar_eq_dot: "toLowerChar c = CHR ''.'' \<longleftrightarrow> c = CHR ''.''"
proof -
  have "toLowerChar c = CHR ''.'' \<longleftrightarrow> (of_char (toLowerChar c) :: nat) = of_char CHR ''.''"
    by (simp only: of_char_eq_iff)
  also have "\<dots> \<longleftrightarrow> (of_char c :: nat) = of_char CHR ''.''"
    unfolding of_char_toLowerChar by (auto split: if_splits)
  also have "\<dots> \<longleftrightarrow> c = CHR ''.''" by (simp only: of_char_eq_iff)
  finally show ?thesis .
qed

lemma spec_extension_toLowerCase:
  "spec_extension (toLowerCase p) = toLowerCase (spec_extension p)"
proof -
  have tw: "takeWhile (\<lambda>c. c \<noteq> x) (map toLowerChar xs) = map toLowerChar (takeWhile (\<lambda>c. c \<noteq> x) xs)"
    if "\<And>c. toLowerChar c = x \<longleftrightarrow> c = x" for x xs
    using that by (induction xs) auto
  have b: "basename_of (map toLowerChar p) = map toLowerChar (basename_of p)"
    by (simp add: basename_of_def rev_map tw toLowerChar_eq_slash)
  have m: "CHR ''.'' \<in> set (map toLowerChar xs) \<longleftrightarrow> CHR ''.'' \<in> set xs" for xs
    using toLowerChar_eq_dot by (metis (no_types, lifting) image_iff list.set_map)
  have d: "toLowerChar CHR ''.'' = CHR ''.''"
    by (simp add: toLowerChar_eq_dot)
  show ?thesis
    unfolding toLowerCase_def spec_extension_def Let_def b m
    by (simp add: rev_map tw toLowerChar_eq_dot d)
qed

lemma endsWith_mp3_iff:
  "endsWith (toLowerCase p) ''.mp3'' \<longleftrightarrow> toLowerCase (spec_extension p) = ''.mp3''"
  unfolding endsWith_def spec_extension_toLowerCase [symmetric]
  by (rule spec_extension_eq_iff [symmetric]) simp_all

lemma map_eq_map_iff_rel:
  "map f xs = map f ys \<longleftrightarrow> list_all2 (\<lambda>x y. f x = f y) xs ys"
proof (induction xs arbitrary: ys)
  case Nil
  then show ?case by simp
next
  case (Cons x xs)
  then show ?case by (cases ys) auto
qed

lemma matchesIgnoreCase_iff:
  "matchesIgnoreCase pat t \<longleftrightarrow> toLowerCase t = toLowerCase pat"
  unfolding matchesIgnoreCase_def toLowerCase_def map_eq_map_iff_rel upper_eq_iff_lower_eq ..

lemma suffix_toLowerCase_iff:
  "suffix pat (toLowerCase s) \<longleftrightarrow> (\<exists>t. suffix t s \<and> toLowerCase t = pat)"
  unfolding toLowerCase_def suffix_def
  by (metis map_append map_eq_append_conv)

lemma supportedFormats_test_iff:
  "supportedFormats_test s \<longleftrightarrow>
     toLowerCase (spec_extension s) \<in> {''.jpg'', ''.jpeg'', ''.png''}"
proof -
  have l: "toLowerCase ''.jpg'' = ''.jpg''" "toLowerCase ''.jpeg'' = ''.jpeg''"
    "toLowerCase ''.png'' = ''.png''"
    by code_simp+
  have "supportedFormats_test s \<longleftrightarrow>
      suffix ''.jpg'' (toLowerCase s) \<or> suffix ''.jpeg'' (toLowerCase s) \<or> suffix ''.png'' (toLowerCase s)"
    unfolding suffix_toLowerCase_iff
    by (auto simp: supportedFormats_test_def list_ex_iff in_set_suffixes matchesIgnoreCase_iff l)
  also have "\<dots> \<longleftrightarrow> spec_extension (toLowerCase s) \<in> {''.jpg'', ''.jpeg'', ''.png''}"
    using spec_extension_eq_iff [of "''jpg''" "toLowerCase s"]
      spec_extension_eq_iff [of "''jpeg''" "toLowerCase s"]
      spec_extension_eq_iff [of "''png''" "toLowerCase s"]
    by simp
  finally show ?thesis by (simp only: spec_extension_toLowerCase)
qed

section \<open>Format and readability checks\<close>

lemma compressImage_rejects:
  assumes "\<not> supportedFormats_test (resolve e inputPath)"
  shows "compressImage mk e inputPath out w = (Inl unsupportedFormat, w)"
  using assms by (simp add: compressImage_def Let_def)

lemma compressImage_passes:
  assumes "supportedFormats_test (resolve e inputPath)"
  shows "fst (compressImage mk e inputPath out w) \<noteq> Inl unsupportedFormat"
  using assms
  by (auto simp add: compressImage_def Let_def access_def execPromise_def measureOutput_def
      stat_size_def unsupportedFormat_def split: prod.splits sum.splits option.splits if_splits)

lemma compressImage_unreadable:
  assumes "supportedFormats_test (resolve e inputPath)"
    and "lookup (fsys w) (resolve e inputPath) = Inr n"
    and "\<not> readable n"
  shows "compressImage mk e inputPath out w =
           (Inl (SystemError EACCES ''access'' (resolve e inputPath)), w)"
  using assms by (simp add: compressImage_def Let_def access_def)

text \<open>
  Claim C2: when the extension of the resolved input path is \<open>.jpg\<close>, \<open>.jpeg\<close> or \<open>.png\<close>
  in any letter case, \<^verbatim>\<open>compressImageLossy\<close> and \<^verbatim>\<open>compressImageLossless\<close> pass the format
  check (whatever they return, it is not the unsupported-format error); with any other
  extension both reject with the error that names the allowed set, and the world is as it
  was: nothing has been spawned.
\<close>

theorem C2_image_format_check:
  "(toLowerCase (spec_extension (resolve e inputPath)) \<in> {''.jpg'', ''.jpeg'', ''.png''} \<longrightarrow>
      fst (compressImageLossy e inputPath out q w)
        \<noteq> Inl (Error ''Unsupported file format. Use JPG, JPEG, or PNG.'') \<and>
      fst (compressImageLossless e inputPath out l w)
        \<noteq> Inl (Error ''Unsupported file format. Use JPG, JPEG, or PNG.'')) \<and>
   (toLowerCase (spec_extension (resolve e inputPath)) \<notin> {''.jpg'', ''.jpeg'', ''.png''} \<longrightarrow>
      compressImageLossy e inputPath out q w =
        (Inl (Error ''Unsupported file format. Use JPG, JPEG, or PNG.''), w) \<and>
      compressImageLossless e inputPath out l w =
        (Inl (Error ''Unsupported file format. Use JPG, JPEG, or PNG.''), w))"
  unfolding supportedFormats_test_iff [symmetric] compressImageLossy_def
    compressImageLossless_def Let_def unsupportedFormat_def [symmetric]
  using compressImage_rejects compressImage_passes by blast

text \<open>The claim at \<^verbatim>\<open>Photo.JPG\<close>, which passes, and at \<^verbatim>\<open>anim.gif\<close>, which is rejected.\<close>

theorem C2_image_format_check_witness:
  "fst (compressImageLossy failing_env ''Photo.JPG'' ''small.jpg'' (Some 40)
          (start (files [''/work'', ''/work/Photo.JPG''] [])))
     \<noteq> Inl (Error ''Unsupported file format. Use JPG, JPEG, or PNG.'') \<and>
   fst (compressImageLossless failing_env ''Photo.JPG'' ''small.jpg'' None
          (start (files [''/work'', ''/work/Photo.JPG''] [])))
     \<noteq> Inl (Error ''Unsupported file format. Use JPG, JPEG, or PNG.'') \<and>
   compressImageLossy failing_env ''anim.gif'' ''small.jpg'' (Some 40)
       (start (files [''/work'', ''/work/anim.gif''] [])) =
     (Inl (Error ''Unsupported file format. Use JPG, JPEG, or PNG.''),
      start (files [''/work'', ''/work/anim.gif''] [])) \<and>
   compressImageLossless failing_env ''anim.gif'' ''small.jpg'' None
       (start (files [''/work'', ''/work/anim.gif''] [])) =
     (Inl (Error ''Unsupported file format. Use JPG, JPEG, or PNG.''),
      start (files [''/work'', ''/work/anim.gif''] []))"
proof -
  have jpg: "toLowerCase (spec_extension (resolve failing_env ''Photo.JPG''))
      \<in> {''.jpg'', ''.jpeg'', ''.png''}"
    by (simp add: failing_env_def cwd_resolve_def spec_extension_def basename_of_def
        toLowerCase_def toLowerChar_def char_of_def bit_Suc_0_iff)
  have gif: "toLowerCase (spec_extension (resolve failing_env ''anim.gif''))
      \<notin> {''.jpg'', ''.jpeg'', ''.png''}"
    by (simp add: failing_env_def cwd_resolve_def spec_extension_def basename_of_def
        toLowerCase_def toLowerChar_def char_of_def bit_Suc_0_iff)
  show ?thesis
    using C2_image_format_check [of failing_env "''Photo.JPG''" "''small.jpg''" "Some 40"
        "start (files [''/work'', ''/work/Photo.JPG''] [])" None]
      C2_image_format_check [of failing_env "''anim.gif''" "''small.jpg''" "Some 40"
        "start (files [''/work'', ''/work/anim.gif''] [])" None]
      jpg gif
    by blast
qed

lemma compressMP3_unresolved:
  assumes "lookup (fsys w) (resolve e inputPath) = Inl c"
  shows "compressMP3 e inputPath out options w =
           (Inl (SystemError c ''access'' (resolve e inputPath)), w)"
  using assms by (simp add: compressMP3_def access_def)

lemma compressMP3_rejects:
  assumes "lookup (fsys w) (resolve e inputPath) = Inr n"
    and "\<not> endsWith (toLowerCase (resolve e inputPath)) ''.mp3''"
  shows "compressMP3 e inputPath out options w = (Inl notMP3, w)"
  using assms by (simp add: compressMP3_def access_def)

lemma compressMP3_spawns:
  assumes "lookup (fsys w) (resolve e inputPath) = Inr n"
    and "endsWith (toLowerCase (resolve e inputPath)) ''.mp3''"
  shows "spawned (snd (compressMP3 e inputPath out options w)) =
           spawned w @ [ffmpegCommandMP3 (resolve e inputPath) (resolve e out) options]"
  using assms
  by (simp add: compressMP3_def access_def Let_def wrapError_def execPromise_def
      measureOutput_def split: prod.splits sum.splits option.splits)

text \<open>
  Claim C3, as stated, fails where the input does not exist: the existence check runs
  before the extension check, so a missing \<^verbatim>\<open>song.wav\<close> is rejected with \<open>ENOENT\<close>, not with
  the MP3 error.
\<close>

theorem C3_counterexample:
  "toLowerCase (spec_extension (resolve failing_env ''song.wav'')) \<noteq> ''.mp3'' \<and>
   compressMP3 failing_env ''song.wav'' ''out.mp3''
       \<lparr>bitrate = None, quality = None, mono = None\<rparr> (start (files [''/work''] [])) =
     (Inl (SystemError ENOENT ''access'' ''/work/song.wav''), start (files [''/work''] []))"
  by (simp add: compressMP3_def access_def failing_env_def cwd_resolve_def start_def files_def
      spec_extension_def basename_of_def toLowerCase_def toLowerChar_def char_of_def
      bit_Suc_0_iff)

text \<open>
  Claim C3, amended: for every input path whose resolved form passes the existence check
  (it resolves to a file) and whose extension is not \<open>.mp3\<close> in any letter case,
  \<^verbatim>\<open>compressMP3\<close> rejects with "Input file must be an MP3." before any process is spawned;
  when the existence check rejects, \<^verbatim>\<open>compressMP3\<close> rejects with that check's error, with
  the code the system gave, whatever the extension. In both cases the world is as it was.
\<close>

theorem C3_mp3_check:
  "(lookup (fsys w) (resolve e inputPath) = Inr n \<and>
    toLowerCase (spec_extension (resolve e inputPath)) \<noteq> ''.mp3'' \<longrightarrow>
      compressMP3 e inputPath out options w = (Inl (Error ''Input file must be an MP3.''), w)) \<and>
   (lookup (fsys w) (resolve e inputPath) = Inl c \<longrightarrow>
      compressMP3 e inputPath out options w =
        (Inl (SystemError c ''access'' (resolve e inputPath)), w))"
  unfolding endsWith_mp3_iff [symmetric] notMP3_def [symmetric]
  using compressMP3_unresolved compressMP3_rejects by blast

text \<open>
  The amended claim at an existing \<^verbatim>\<open>song.wav\<close>, at a missing \<^verbatim>\<open>gone.mp3\<close>, and at a
  \<^verbatim>\<open>song.wav\<close> in a directory the process may not search (\<open>EACCES\<close>).
\<close>

theorem C3_mp3_check_witness:
  "compressMP3 failing_env ''song.wav'' ''out.mp3''
       \<lparr>bitrate = None, quality = None, mono = None\<rparr>
       (start (files [''/work'', ''/work/song.wav''] [])) =
     (Inl (Error ''Input file must be an MP3.''), start (files [''/work'', ''/work/song.wav''] [])) \<and>
   compressMP3 failing_env ''gone.mp3'' ''out.mp3''
       \<lparr>bitrate = None, quality = None, mono = None\<rparr> (start (files [''/work''] [])) =
     (Inl (SystemError ENOENT ''access'' ''/work/gone.mp3''), start (files [''/work''] [])) \<and>
   compressMP3 failing_env ''/sealed/song.wav'' ''out.mp3''
       \<lparr>bitrate = None, quality = None, mono = None\<rparr>
       (start (failing_at ''/sealed/song.wav'' EACCES (files [''/work'', ''/sealed''] []))) =
     (Inl (SystemError EACCES ''access'' ''/sealed/song.wav''),
      start (failing_at ''/sealed/song.wav'' EACCES (files [''/work'', ''/sealed''] [])))"
proof -
  have a: "lookup (fsys (start (files [''/work'', ''/work/song.wav''] [])))
             (resolve failing_env ''song.wav'') =
             Inr \<lparr>readable = True, writeDenied = None, fileSize = 0\<rparr> \<and>
           toLowerCase (spec_extension (resolve failing_env ''song.wav'')) \<noteq> ''.mp3''"
    by (simp add: failing_env_def cwd_resolve_def start_def files_def
      spec_extension_def basename_of_def toLowerCase_def toLowerChar_def char_of_def
      bit_Suc_0_iff)
  have b: "lookup (fsys (start (files [''/work''] []))) (resolve failing_env ''gone.mp3'')
      = Inl ENOENT"
    by (simp add: failing_env_def cwd_resolve_def start_def files_def)
  have c: "lookup (fsys (start (failing_at ''/sealed/song.wav'' EACCES
        (files [''/work'', ''/sealed''] [])))) (resolve failing_env ''/sealed/song.wav'')
      = Inl EACCES"
    by (simp add: failing_env_def cwd_resolve_def start_def failing_at_def)
  have r: "resolve failing_env ''gone.mp3'' = ''/work/gone.mp3''"
    "resolve failing_env ''/sealed/song.wav'' = ''/sealed/song.wav''"
    by (simp_all add: failing_env_def cwd_resolve_def)
  show ?thesis
    using C3_mp3_check [of "start (files [''/work'', ''/work/song.wav''] [])" failing_env
        "''song.wav''" "\<lparr>readable = True, writeDenied = None, fileSize = 0\<rparr>" "''out.mp3''"
        "\<lparr>bitrate = None, quality = None, mono = None\<rparr>"]
      C3_mp3_check [of "start (files [''/work''] [])" failing_env
        "''gone.mp3''" _ "''out.mp3''" "\<lparr>bitrate = None, quality = None, mono = None\<rparr>" ENOENT]
      C3_mp3_check [of "start (failing_at ''/sealed/song.wav'' EACCES
          (files [''/work'', ''/sealed''] []))" failing_env
        "''/sealed/song.wav''" _ "''out.mp3''" "\<lparr>bitrate = None, quality = None, mono = None\<rparr>"
        EACCES]
      a b c
    by (simp add: r)
qed

text \<open>
  Claim C5, as stated, fails for \<^verbatim>\<open>compressMP3\<close>: it calls \<^verbatim>\<open>fs.access\<close> without a mode, which
  tests existence only. An existing \<^verbatim>\<open>song.mp3\<close> that is not readable passes validation, the
  FFmpeg command is spawned, and the failure reported is the one of the child process.
\<close>

theorem C5_counterexample:
  "lookup (files [''/work'', ''/work/song.mp3''] [''/work/song.mp3'']) ''/work/song.mp3'' =
     Inr \<lparr>readable = False, writeDenied = None, fileSize = 0\<rparr> \<and>
   compressMP3 failing_env ''song.mp3'' ''out.mp3''
       \<lparr>bitrate = None, quality = None, mono = None\<rparr>
       (start (files [''/work'', ''/work/song.mp3''] [''/work/song.mp3''])) =
     (Inl (Error ''MP3 compression failed: Command failed''),
      \<lparr>fsys = files [''/work'', ''/work/song.mp3''] [''/work/song.mp3''],
       spawned = [ffmpegCommandMP3 ''/work/song.mp3'' ''/work/out.mp3''
                    \<lparr>bitrate = None, quality = None, mono = None\<rparr>]\<rparr>)"
  by (simp add: compressMP3_def access_def failing_env_def cwd_resolve_def start_def files_def
      endsWith_def toLowerCase_def toLowerChar_def char_of_def bit_Suc_0_iff
      wrapError_def execPromise_def tool_fails_def Let_def suffix_to_prefix)

text \<open>
  Claim C5, amended: \<^verbatim>\<open>compressImageLossy\<close> and \<^verbatim>\<open>compressImageLossless\<close>, on an input whose
  resolved path has a supported extension and resolves to a file the process may not read,
  fail with the \<open>EACCES\<close> error of the read-access check before any process is spawned.
  \<^verbatim>\<open>compressMP3\<close> does not test readability: its \<^verbatim>\<open>fs.access\<close> call has no mode, so whenever
  that existence check passes on an \<open>.mp3\<close> input (the path resolves to a file), the FFmpeg
  command is spawned, whether or not the file is readable.
\<close>

theorem C5_readability:
  "(toLowerCase (spec_extension (resolve e inputPath)) \<in> {''.jpg'', ''.jpeg'', ''.png''} \<and>
    lookup (fsys w) (resolve e inputPath) = Inr n \<and> \<not> readable n \<longrightarrow>
      compressImageLossy e inputPath out q w =
        (Inl (SystemError EACCES ''access'' (resolve e inputPath)), w) \<and>
      compressImageLossless e inputPath out l w =
        (Inl (SystemError EACCES ''access'' (resolve e inputPath)), w)) \<and>
   (toLowerCase (spec_extension (resolve e inputPath)) = ''.mp3'' \<and>
    lookup (fsys w) (resolve e inputPath) = Inr n \<longrightarrow>
      spawned (snd (compressMP3 e inputPath out options w)) =
        spawned w @ [ffmpegCommandMP3 (resolve e inputPath) (resolve e out) options])"
  unfolding supportedFormats_test_iff [symmetric] endsWith_mp3_iff [symmetric]
    compressImageLossy_def compressImageLossless_def Let_def
  using compressImage_unreadable compressMP3_spawns by blast

text \<open>The amended claim at an unreadable \<^verbatim>\<open>locked.png\<close> and an unreadable \<^verbatim>\<open>song.mp3\<close>.\<close>

theorem C5_readability_witness:
  "compressImageLossy failing_env ''locked.png'' ''small.png'' None
       (start (files [''/work'', ''/work/locked.png''] [''/work/locked.png''])) =
     (Inl (SystemError EACCES ''access'' ''/work/locked.png''),
      start (files [''/work'', ''/work/locked.png''] [''/work/locked.png''])) \<and>
   compressImageLossless failing_env ''locked.png'' ''small.png'' None
       (start (files [''/work'', ''/work/locked.png''] [''/work/locked.png''])) =
     (Inl (SystemError EACCES ''access'' ''/work/locked.png''),
      start (files [''/work'', ''/work/locked.png''] [''/work/locked.png''])) \<and>
   spawned (snd (compressMP3 failing_env ''song.mp3'' ''out.mp3''
       \<lparr>bitrate = None, quality = None, mono = None\<rparr>
       (start (files [''/work'', ''/work/song.mp3''] [''/work/song.mp3''])))) =
     [ffmpegCommandMP3 ''/work/song.mp3'' ''/work/out.mp3''
        \<lparr>bitrate = None, quality = None, mono = None\<rparr>]"
proof -
  have a: "toLowerCase (spec_extension (resolve failing_env ''locked.png''))
        \<in> {''.jpg'', ''.jpeg'', ''.png''} \<and>
      lookup (fsys (start (files [''/work'', ''/work/locked.png''] [''/work/locked.png''])))
        (resolve failing_env ''locked.png'') =
        Inr \<lparr>readable = False, writeDenied = None, fileSize = 0\<rparr> \<and>
      \<not> readable \<lparr>readable = False, writeDenied = None, fileSize = 0\<rparr>"
    by (simp add: failing_env_def cwd_resolve_def start_def files_def
      spec_extension_def basename_of_def toLowerCase_def toLowerChar_def char_of_def
      bit_Suc_0_iff)
  have b: "toLowerCase (spec_extension (resolve failing_env ''song.mp3'')) = ''.mp3'' \<and>
      lookup (fsys (start (files [''/work'', ''/work/song.mp3''] [''/work/song.mp3''])))
        (resolve failing_env ''song.mp3'') =
        Inr \<lparr>readable = False, writeDenied = None, fileSize = 0\<rparr>"
    by (simp add: failing_env_def cwd_resolve_def start_def files_def
      spec_extension_def basename_of_def toLowerCase_def toLowerChar_def char_of_def
      bit_Suc_0_iff)
  have r: "resolve failing_env ''locked.png'' = ''/work/locked.png''"
    "resolve failing_env ''song.mp3'' = ''/work/song.mp3''"
    "resolve failing_env ''out.mp3'' = ''/work/out.mp3''"
    "spawned (start fs) = []" for fs
    by (simp_all add: failing_env_def cwd_resolve_def start_def)
  show ?thesis
    using C5_readability [of failing_env "''locked.png''"
        "start (files [''/work'', ''/work/locked.png''] [''/work/locked.png''])"
        "\<lparr>readable = False, writeDenied = None, fileSize = 0\<rparr>" "''small.png''" None None]
      C5_readability [of failing_env "''song.mp3''"
        "start (files [''/work'', ''/work/song.mp3''] [''/work/song.mp3''])"
        "\<lparr>readable = False, writeDenied = None, fileSize = 0\<rparr>"
        "''out.mp3''" None None "\<lparr>bitrate = None, quality = None, mono = None\<rparr>"]
      a b
    by (simp add: r)
qed


section \<open>The synthesized commands\<close>

lemma sublist_across:
  assumes "d \<notin> set x"
  shows "sublist x (u @ d # v) \<longleftrightarrow> sublist x u \<or> sublist x v"
proof -
  have p: "prefix ys (d # v) \<longleftrightarrow> ys = []" if "d \<notin> set ys" for ys
    using that by (cases ys) auto
  have "sublist x (d # v) \<longleftrightarrow> x = [] \<or> sublist x v"
    using assms by (auto simp: sublist_Cons_right p)
  moreover have "(\<exists>xs1 xs2. x = xs1 @ xs2 \<and> suffix xs1 u \<and> prefix xs2 (d # v)) \<longrightarrow> sublist x u"
    using assms by (auto simp: p)
  ultimately show ?thesis
    by (auto simp: sublist_append)
qed

lemma audioMode_cases:
  "bitrate options = Some b \<Longrightarrow> audioMode options = ''-b:a '' @ bitRateString b"
  "bitrate options = None \<Longrightarrow>
     audioMode options = ''-q:a '' @ numberToString (case quality options of None \<Rightarrow> 4 | Some q \<Rightarrow> q)"
  by (simp_all add: audioMode_def audioBitrate_def audioQuality_def)

lemma no_q_in_flags:
  \<open>\<not> sublist ''-q:a'' ('' -c:a libmp3lame -b:a '' @ bitRateString b @ '' '' @ 
       (if m = Some True then ''-ac 1'' else []) @ '' -y '')\<close>
  by (cases b; cases "m = Some True"; simp add: sublist_Cons_right)

lemma mp3_command_split:
  \<open>ffmpegCommandMP3 rin rout options =
     ''ffmpeg -i '' @ CHR 0x22 # (rin @ CHR 0x22 #
       (('' -c:a libmp3lame '' @ audioMode options @ '' '' @ audioMono options @ '' -y '')
          @ CHR 0x22 # (rout @ CHR 0x22 # [])))\<close>
  by (simp add: ffmpegCommandMP3_def)

text \<open>
  Claim C4: when \<open>options.bitrate\<close> is supplied, the FFmpeg command of \<^verbatim>\<open>compressMP3\<close> carries
  \<open>-b:a\<close> with that bitrate and, outside the two quoted paths, no \<open>-q:a\<close>: unless a path
  itself contains that text, it occurs nowhere in the command, so the quality is ignored.
  Otherwise the command carries \<open>-q:a\<close> with the quality, which is 4 when unset.
\<close>

theorem C4_mp3_mode:
  \<open>(bitrate options = Some b \<longrightarrow>
      ffmpegCommandMP3 rin rout options =
        ''ffmpeg -i '' @ quoted rin @ '' -c:a libmp3lame -b:a '' @ bitRateString b @ '' ''
          @ (if mono options = Some True then ''-ac 1'' else []) @ '' -y '' @ quoted rout \<and>
      (\<not> sublist ''-q:a'' rin \<and> \<not> sublist ''-q:a'' rout \<longrightarrow>
         \<not> sublist ''-q:a'' (ffmpegCommandMP3 rin rout options))) \<and>
   (bitrate options = None \<longrightarrow>
      ffmpegCommandMP3 rin rout options =
        ''ffmpeg -i '' @ quoted rin @ '' -c:a libmp3lame -q:a ''
          @ numberToString (case quality options of None \<Rightarrow> 4 | Some q \<Rightarrow> q) @ '' ''
          @ (if mono options = Some True then ''-ac 1'' else []) @ '' -y '' @ quoted rout)\<close>
proof (intro conjI impI)
  assume b: "bitrate options = Some b"
  show \<open>ffmpegCommandMP3 rin rout options =
        ''ffmpeg -i '' @ quoted rin @ '' -c:a libmp3lame -b:a '' @ bitRateString b @ '' ''
          @ (if mono options = Some True then ''-ac 1'' else []) @ '' -y '' @ quoted rout\<close>
    by (simp add: ffmpegCommandMP3_def audioMode_cases(1) [OF b] audioMono_def quoted_def)
  assume p: "\<not> sublist ''-q:a'' rin \<and> \<not> sublist ''-q:a'' rout"
  have q: "CHR 0x22 \<notin> set ''-q:a''" by simp
  have h: "\<not> sublist ''-q:a'' ''ffmpeg -i ''" by (simp add: sublist_Cons_right)
  have f: \<open>\<not> sublist ''-q:a'' ('' -c:a libmp3lame '' @ audioMode options @ '' ''
      @ audioMono options @ '' -y '')\<close>
    using no_q_in_flags [of b "mono options"]
    by (simp add: audioMode_cases(1) [OF b] audioMono_def)
  show "\<not> sublist ''-q:a'' (ffmpegCommandMP3 rin rout options)"
    unfolding mp3_command_split sublist_across [OF q]
    using p h f by simp
next
  assume n: "bitrate options = None"
  show \<open>ffmpegCommandMP3 rin rout options =
        ''ffmpeg -i '' @ quoted rin @ '' -c:a libmp3lame -q:a ''
          @ numberToString (case quality options of None \<Rightarrow> 4 | Some q \<Rightarrow> q) @ '' ''
          @ (if mono options = Some True then ''-ac 1'' else []) @ '' -y '' @ quoted rout\<close>
    by (simp add: ffmpegCommandMP3_def audioMode_cases(2) [OF n] audioMono_def quoted_def)
qed

text \<open>
  The specification's example \<^verbatim>\<open>{ bitrate: '192k', quality: 5 }\<close>, and the defaults with
  \<^verbatim>\<open>mono\<close> set.
\<close>

theorem C4_mp3_mode_witness:
  \<open>ffmpegCommandMP3 ''/work/in.mp3'' ''/work/out.mp3''
       \<lparr>bitrate = Some HIGH, quality = Some 5, mono = None\<rparr> =
     ''ffmpeg -i "/work/in.mp3" -c:a libmp3lame -b:a 192k  -y "/work/out.mp3"'' \<and>
   \<not> sublist ''-q:a'' (ffmpegCommandMP3 ''/work/in.mp3'' ''/work/out.mp3''
       \<lparr>bitrate = Some HIGH, quality = Some 5, mono = None\<rparr>) \<and>
   ffmpegCommandMP3 ''/work/in.mp3'' ''/work/out.mp3''
       \<lparr>bitrate = None, quality = None, mono = Some True\<rparr> =
     ''ffmpeg -i "/work/in.mp3" -c:a libmp3lame -q:a 4 -ac 1 -y "/work/out.mp3"''\<close>
proof -
  have p: "\<not> sublist ''-q:a'' ''/work/in.mp3'' \<and> \<not> sublist ''-q:a'' ''/work/out.mp3''"
    by (simp add: sublist_Cons_right)
  have four: "numberToString 4 = ''4''"
    by (simp add: numberToString_def natToString.simps)
  show ?thesis
    using C4_mp3_mode [of "\<lparr>bitrate = Some HIGH, quality = Some 5, mono = None\<rparr>" HIGH
        "''/work/in.mp3''" "''/work/out.mp3''"]
      C4_mp3_mode [of "\<lparr>bitrate = None, quality = None, mono = Some True\<rparr>" HIGH
        "''/work/in.mp3''" "''/work/out.mp3''"]
      p
    by (simp add: quoted_def four sublist_Cons_right)
qed

lemma gif_command:
  assumes "codec options = Some GIF"
  shows \<open>ffmpegCommandVideo rin rout options =
     Inr (''\<newline>        ffmpeg -i '' @ quoted rin
          @ ''         -vf "fps=15,scale=640:-1:flags=lanczos,split[s0][s1];[s0]palettegen[p];[s1][p]paletteuse"         -loop 0         ''
          @ quoted rout @ ''\<newline>      '')\<close>
  using assms by (simp add: ffmpegCommandVideo_def videoCodec_def quoted_def)

lemma compressVideo_command:
  "ffmpegCommandVideo (resolve e inputPath) (resolve e out) o1 =
     ffmpegCommandVideo (resolve e inputPath) (resolve e out) o2 \<Longrightarrow>
   compressVideo e inputPath out o1 w = compressVideo e inputPath out o2 w"
  by (simp add: compressVideo_def Let_def cong: option.case_cong)

text \<open>
  Claim C6: with codec GIF the command is the fixed one (15 fps, scale to width 640 keeping
  the aspect ratio with lanczos resampling, palette generation and use, \<open>-loop 0\<close>); two
  option objects with codec GIF give the same command on the same paths, whatever their
  \<open>fps\<close>, \<open>scale\<close>, \<open>crf\<close> and \<open>preset\<close>, and hence the same run of \<^verbatim>\<open>compressVideo\<close>.
\<close>

theorem C6_gif_fixed_command:
  assumes "codec o1 = Some GIF" and "codec o2 = Some GIF"
  shows \<open>ffmpegCommandVideo rin rout o1 =
     Inr (''\<newline>        ffmpeg -i '' @ quoted rin
          @ ''         -vf "fps=15,scale=640:-1:flags=lanczos,split[s0][s1];[s0]palettegen[p];[s1][p]paletteuse"         -loop 0         ''
          @ quoted rout @ ''\<newline>      '') \<and>
   ffmpegCommandVideo rin rout o2 = ffmpegCommandVideo rin rout o1 \<and>
   compressVideo e inputPath out o2 w = compressVideo e inputPath out o1 w\<close>
  using gif_command [OF assms(1)] gif_command [OF assms(2)]
  by (simp add: compressVideo_command)

text \<open>The claim at two option objects that differ in all four fields.\<close>

theorem C6_gif_fixed_command_witness:
  \<open>ffmpegCommandVideo ''/work/in.mp4'' ''/work/out.gif''
       \<lparr>codec = Some GIF, crf = Some 18, preset = Some SLOW, fps = Some 30,
        scale = Some \<lparr>width = Some 320, height = Some 240\<rparr>\<rparr> =
     Inr ''\<newline>        ffmpeg -i "/work/in.mp4"         -vf "fps=15,scale=640:-1:flags=lanczos,split[s0][s1];[s0]palettegen[p];[s1][p]paletteuse"         -loop 0         "/work/out.gif"\<newline>      '' \<and>
   ffmpegCommandVideo ''/work/in.mp4'' ''/work/out.gif''
       \<lparr>codec = Some GIF, crf = None, preset = None, fps = None, scale = None\<rparr> =
     ffmpegCommandVideo ''/work/in.mp4'' ''/work/out.gif''
       \<lparr>codec = Some GIF, crf = Some 18, preset = Some SLOW, fps = Some 30,
        scale = Some \<lparr>width = Some 320, height = Some 240\<rparr>\<rparr> \<and>
   compressVideo failing_env ''in.mp4'' ''out.gif''
       \<lparr>codec = Some GIF, crf = None, preset = None, fps = None, scale = None\<rparr>
       (start (files [''/work'', ''/work/in.mp4''] [])) =
     compressVideo failing_env ''in.mp4'' ''out.gif''
       \<lparr>codec = Some GIF, crf = Some 18, preset = Some SLOW, fps = Some 30,
        scale = Some \<lparr>width = Some 320, height = Some 240\<rparr>\<rparr>
       (start (files [''/work'', ''/work/in.mp4''] []))\<close>
proof -
  have a: "codec \<lparr>codec = Some GIF, crf = Some 18, preset = Some SLOW, fps = Some 30,
        scale = Some \<lparr>width = Some 320, height = Some 240\<rparr>\<rparr> = Some GIF"
    and b: "codec \<lparr>codec = Some GIF, crf = None, preset = None, fps = None, scale = None\<rparr>
      = Some GIF"
    by simp_all
  show ?thesis
    using C6_gif_fixed_command [OF a b, of "''/work/in.mp4''" "''/work/out.gif''" failing_env
        "''in.mp4''" "''out.gif''" "start (files [''/work'', ''/work/in.mp4''] [])"]
    by (simp add: quoted_def)
qed

text \<open>Where the codec is not GIF, the command carries the crf and the scale filter.\<close>

lemma sublist_in4: "sublist x (a @ b @ c @ x @ d)"
  using sublist_appendI [of x "a @ b @ c" d] by (simp only: append_assoc)

lemma video_command_contains:
  assumes "codec options \<noteq> Some GIF"
  shows "\<exists>cmd. ffmpegCommandVideo rin rout options = Inr cmd \<and>
           sublist ('' -crf '' @ numberToString (videoCrf options) @ '' '') cmd \<and>
           sublist ('' '' @ videoScale options @ '' '') cmd"
proof -
  from assms have "videoCodec options \<noteq> GIF"
    by (auto simp: videoCodec_def split: option.splits)
  then consider "videoCodec options = LIBX264 \<or> videoCodec options = LIBX265"
    | "videoCodec options = VP9"
    by (cases "videoCodec options") auto
  then show ?thesis
  proof cases
    case 1
    let ?C = \<open>(''\<newline>        ffmpeg -i '' @ quoted rin @ ''         -c:v ''
               @ codecString (videoCodec options))
             @ ('' -crf '' @ numberToString (videoCrf options) @ '' '')
             @ (''-preset '' @ presetString (videoPreset options)
                 @ ''         -c:a aac -b:a 128k         '' @ videoFps options)
             @ ('' '' @ videoScale options @ '' '')
             @ (''        -movflags +faststart         '' @ quoted rout @ ''\<newline>      '')\<close>
    have "ffmpegCommandVideo rin rout options = Inr ?C"
      using 1 by (auto simp add: ffmpegCommandVideo_def quoted_def)
    moreover have "sublist ('' -crf '' @ numberToString (videoCrf options) @ '' '') ?C"
      by (rule sublist_appendI)
    moreover have "sublist ('' '' @ videoScale options @ '' '') ?C"
      by (rule sublist_in4)
    ultimately show ?thesis by blast
  next
    case 2
    let ?C = \<open>(''\<newline>        ffmpeg -i '' @ quoted rin @ ''         -c:v libvpx-vp9'')
             @ ('' -crf '' @ numberToString (videoCrf options) @ '' '')
             @ (''-b:v 0         -c:a libopus -b:a 128k         '' @ videoFps options)
             @ ('' '' @ videoScale options @ '' '')
             @ (''        '' @ quoted rout @ ''\<newline>      '')\<close>
    have "ffmpegCommandVideo rin rout options = Inr ?C"
      using 2 by (auto simp add: ffmpegCommandVideo_def quoted_def)
    moreover have "sublist ('' -crf '' @ numberToString (videoCrf options) @ '' '') ?C"
      by (rule sublist_appendI)
    moreover have "sublist ('' '' @ videoScale options @ '' '') ?C"
      by (rule sublist_in4)
    ultimately show ?thesis by blast
  qed
qed

lemma minus_one_string: "numberToString (- 1) = ''-1''"
  by (simp add: numberToString_def natToString.simps)

text \<open>
  Claim C7, as stated, fails for codec GIF: the \<open>scale\<close> option is not used there. With the
  width omitted and height 480, the filter of the command is the fixed \<open>scale=640:-1\<close>: the
  omitted width is 640, not \<open>-1\<close>.
\<close>

theorem C7_counterexample:
  \<open>ffmpegCommandVideo ''/work/in.mp4'' ''/work/out.gif''
       \<lparr>codec = Some GIF, crf = None, preset = None, fps = None,
        scale = Some \<lparr>width = None, height = Some 480\<rparr>\<rparr> =
     Inr ''\<newline>        ffmpeg -i "/work/in.mp4"         -vf "fps=15,scale=640:-1:flags=lanczos,split[s0][s1];[s0]palettegen[p];[s1][p]paletteuse"         -loop 0         "/work/out.gif"\<newline>      '' \<and>
   \<not> sublist ''scale=-1:''
     (projr (ffmpegCommandVideo ''/work/in.mp4'' ''/work/out.gif''
       \<lparr>codec = Some GIF, crf = None, preset = None, fps = None,
        scale = Some \<lparr>width = None, height = Some 480\<rparr>\<rparr>))\<close>
  by (simp add: ffmpegCommandVideo_def videoCodec_def sublist_Cons_right)

text \<open>
  Claim C7, amended: for every \<^verbatim>\<open>compressVideo\<close> call whose codec is not GIF (H.264, H.265,
  VP9 or none given) and whose \<open>scale\<close> option omits exactly one of width and height, the
  command has the filter \<open>-vf scale=w:h\<close> in which the omitted dimension is \<open>-1\<close>. (The
  dimension that is given is printed as it is, except that 0 is printed as \<open>-1\<close> too.)
\<close>

theorem C7_scale_omitted_dimension:
  assumes "codec options \<noteq> Some GIF"
  shows "(scale options = Some \<lparr>width = Some n, height = None\<rparr> \<longrightarrow>
            (\<exists>cmd. ffmpegCommandVideo rin rout options = Inr cmd \<and>
               sublist ('' -vf scale='' @ numberToString (if n = 0 then - 1 else n) @ '':-1 '') cmd)) \<and>
         (scale options = Some \<lparr>width = None, height = Some n\<rparr> \<longrightarrow>
            (\<exists>cmd. ffmpegCommandVideo rin rout options = Inr cmd \<and>
               sublist ('' -vf scale=-1:'' @ numberToString (if n = 0 then - 1 else n) @ '' '') cmd))"
  using video_command_contains [OF assms, of rin rout]
  by (auto simp add: videoScale_def numberOr_def minus_one_string)

text \<open>The specification's example, width 1280 and no height, and its mirror image.\<close>

theorem C7_scale_omitted_dimension_witness:
  \<open>sublist '' -vf scale=1280:-1 ''
     (projr (ffmpegCommandVideo ''/work/in.mp4'' ''/work/out.mp4''
       \<lparr>codec = None, crf = None, preset = None, fps = None,
        scale = Some \<lparr>width = Some 1280, height = None\<rparr>\<rparr>)) \<and>
   sublist '' -vf scale=-1:720 ''
     (projr (ffmpegCommandVideo ''/work/in.mp4'' ''/work/out.webm''
       \<lparr>codec = Some VP9, crf = None, preset = None, fps = None,
        scale = Some \<lparr>width = None, height = Some 720\<rparr>\<rparr>))\<close>
proof -
  have n: "numberToString 1280 = ''1280''" "numberToString 720 = ''720''"
    by (simp_all add: numberToString_def natToString.simps)
  have a: "codec \<lparr>codec = None, crf = None, preset = None, fps = None,
        scale = Some \<lparr>width = Some 1280, height = None\<rparr>\<rparr> \<noteq> Some GIF"
    and b: "codec \<lparr>codec = Some VP9, crf = None, preset = None, fps = None,
        scale = Some \<lparr>width = None, height = Some 720\<rparr>\<rparr> \<noteq> Some GIF"
    by simp_all
  show ?thesis
    using C7_scale_omitted_dimension [OF a, of 1280 "''/work/in.mp4''" "''/work/out.mp4''"]
      C7_scale_omitted_dimension [OF b, of 720 "''/work/in.mp4''" "''/work/out.webm''"]
    by (auto simp add: n)
qed

text \<open>
  Claim C10, as stated, fails for codec GIF: the fixed command has no \<open>-crf\<close> flag at all, so
  a supplied crf of 0 does not appear in it.
\<close>

theorem C10_counterexample:
  \<open>ffmpegCommandVideo ''/work/in.mp4'' ''/work/out.gif''
       \<lparr>codec = Some GIF, crf = Some 0, preset = None, fps = None, scale = None\<rparr> =
     Inr ''\<newline>        ffmpeg -i "/work/in.mp4"         -vf "fps=15,scale=640:-1:flags=lanczos,split[s0][s1];[s0]palettegen[p];[s1][p]paletteuse"         -loop 0         "/work/out.gif"\<newline>      '' \<and>
   \<not> sublist ''-crf''
     (projr (ffmpegCommandVideo ''/work/in.mp4'' ''/work/out.gif''
       \<lparr>codec = Some GIF, crf = Some 0, preset = None, fps = None, scale = None\<rparr>))\<close>
  by (simp add: ffmpegCommandVideo_def videoCodec_def sublist_Cons_right)

text \<open>
  Claim C10, amended: in \<^verbatim>\<open>compressVideo\<close> with a codec other than GIF, a supplied crf of 0 is
  kept (the command has \<open>-crf 0\<close>, since \<^verbatim>\<open>??\<close> replaces only \<^verbatim>\<open>undefined\<close>), whereas a
  supplied scale width or height of 0 is printed as \<open>-1\<close> in the scale filter (\<^verbatim>\<open>||\<close>
  replaces 0 as well).
\<close>

theorem C10_crf_zero_scale_zero:
  assumes "codec options \<noteq> Some GIF"
  shows "(crf options = Some 0 \<longrightarrow>
            (\<exists>cmd. ffmpegCommandVideo rin rout options = Inr cmd \<and> sublist '' -crf 0 '' cmd)) \<and>
         (scale options = Some sc \<and> width sc = Some 0 \<longrightarrow>
            (\<exists>cmd. ffmpegCommandVideo rin rout options = Inr cmd \<and>
               sublist ('' -vf scale=-1:''
                 @ numberToString (case height sc of None \<Rightarrow> - 1 | Some h \<Rightarrow> if h = 0 then - 1 else h)
                 @ '' '') cmd)) \<and>
         (scale options = Some sc \<and> height sc = Some 0 \<longrightarrow>
            (\<exists>cmd. ffmpegCommandVideo rin rout options = Inr cmd \<and>
               sublist ('' -vf scale=''
                 @ numberToString (case width sc of None \<Rightarrow> - 1 | Some v \<Rightarrow> if v = 0 then - 1 else v)
                 @ '':-1 '') cmd))"
proof -
  have z: "numberToString 0 = ''0''"
    by (simp add: numberToString_def natToString.simps)
  show ?thesis
    using video_command_contains [OF assms, of rin rout]
    by (auto simp add: videoScale_def videoCrf_def numberOr_def minus_one_string z
        split: option.splits)
qed

text \<open>The amended claim at crf 0 with a scale of 0 by 0.\<close>

theorem C10_crf_zero_scale_zero_witness:
  \<open>sublist '' -crf 0 ''
     (projr (ffmpegCommandVideo ''/work/in.mp4'' ''/work/out.mp4''
       \<lparr>codec = Some LIBX265, crf = Some 0, preset = None, fps = None,
        scale = Some \<lparr>width = Some 0, height = Some 0\<rparr>\<rparr>)) \<and>
   sublist '' -vf scale=-1:-1 ''
     (projr (ffmpegCommandVideo ''/work/in.mp4'' ''/work/out.mp4''
       \<lparr>codec = Some LIBX265, crf = Some 0, preset = None, fps = None,
        scale = Some \<lparr>width = Some 0, height = Some 0\<rparr>\<rparr>))\<close>
proof -
  have a: "codec \<lparr>codec = Some LIBX265, crf = Some 0, preset = None, fps = None,
        scale = Some \<lparr>width = Some 0, height = Some 0\<rparr>\<rparr> \<noteq> Some GIF"
    by simp
  show ?thesis
    using C10_crf_zero_scale_zero [OF a, of "''/work/in.mp4''" "''/work/out.mp4''"
        "\<lparr>width = Some 0, height = Some 0\<rparr>"]
    by (auto simp add: minus_one_string)
qed

























section \<open>The result\<close>

lemma measureOutput_result:
  assumes "measureOutput rout w1 = (Inr r, w')"
  shows "outputPath r = rout \<and>
         (\<exists>n. lookup (fsys w') rout = Inr n \<and> compressedSizeKB r = real (fileSize n) / 1024)"
  using assms by (auto simp: measureOutput_def stat_size_def split: sum.splits)

lemma compressPDF_result:
  assumes "compressPDF e inputPath out w = (Inr r, w')"
  shows "outputPath r = resolve e out \<and>
         (\<exists>n. lookup (fsys w') (resolve e out) = Inr n \<and>
              compressedSizeKB r = real (fileSize n) / 1024)"
  using assms
  by (auto simp: compressPDF_def Let_def split: prod.splits sum.splits
      dest: measureOutput_result)

lemma compressImage_result:
  assumes "compressImage mk e inputPath out w = (Inr r, w')"
  shows "outputPath r = resolve e out \<and>
         (\<exists>n. lookup (fsys w') (resolve e out) = Inr n \<and>
              compressedSizeKB r = real (fileSize n) / 1024)"
  using assms
  by (auto simp: compressImage_def Let_def split: prod.splits sum.splits option.splits if_splits
      dest: measureOutput_result)

lemma wrapError_result: "wrapError label x = (Inr r, w') \<Longrightarrow> x = (Inr r, w')"
  by (auto simp: wrapError_def split: prod.splits sum.splits)

lemma compressVideo_result:
  assumes "compressVideo e inputPath out options w = (Inr r, w')"
  shows "outputPath r = resolve e out \<and>
         (\<exists>n. lookup (fsys w') (resolve e out) = Inr n \<and>
              compressedSizeKB r = real (fileSize n) / 1024)"
  using assms
  by (auto simp: compressVideo_def Let_def split: prod.splits sum.splits option.splits if_splits
      dest!: wrapError_result dest: measureOutput_result)

lemma compressMP3_result:
  assumes "compressMP3 e inputPath out options w = (Inr r, w')"
  shows "outputPath r = resolve e out \<and>
         (\<exists>n. lookup (fsys w') (resolve e out) = Inr n \<and>
              compressedSizeKB r = real (fileSize n) / 1024)"
  using assms
  by (auto simp: compressMP3_def Let_def split: prod.splits sum.splits option.splits if_splits
      dest!: wrapError_result dest: measureOutput_result)

text \<open>
  Claim C9: whenever one of the five operations succeeds, the \<open>outputPath\<close> it returns is the
  resolved output path and \<open>compressedSizeKB\<close> is the size in bytes of the file at that path,
  as the file system stands after the run, divided by 1024. (Halving a binary floating-point
  number ten times is exact, so the quotient is the real one.)
\<close>

theorem C9_result_size:
  "(compressPDF e inputPath out w = (Inr r, w') \<longrightarrow>
      outputPath r = resolve e out \<and>
      (\<exists>n. lookup (fsys w') (resolve e out) = Inr n \<and>
           compressedSizeKB r = real (fileSize n) / 1024)) \<and>
   (compressImageLossy e inputPath out q w = (Inr r, w') \<longrightarrow>
      outputPath r = resolve e out \<and>
      (\<exists>n. lookup (fsys w') (resolve e out) = Inr n \<and>
           compressedSizeKB r = real (fileSize n) / 1024)) \<and>
   (compressImageLossless e inputPath out l w = (Inr r, w') \<longrightarrow>
      outputPath r = resolve e out \<and>
      (\<exists>n. lookup (fsys w') (resolve e out) = Inr n \<and>
           compressedSizeKB r = real (fileSize n) / 1024)) \<and>
   (compressVideo e inputPath out voptions w = (Inr r, w') \<longrightarrow>
      outputPath r = resolve e out \<and>
      (\<exists>n. lookup (fsys w') (resolve e out) = Inr n \<and>
           compressedSizeKB r = real (fileSize n) / 1024)) \<and>
   (compressMP3 e inputPath out aoptions w = (Inr r, w') \<longrightarrow>
      outputPath r = resolve e out \<and>
      (\<exists>n. lookup (fsys w') (resolve e out) = Inr n \<and>
           compressedSizeKB r = real (fileSize n) / 1024))"
  using compressPDF_result [of e inputPath out w r w']
    compressImage_result [of _ e inputPath out w r w']
    compressVideo_result [of e inputPath out voptions w r w']
    compressMP3_result [of e inputPath out aoptions w r w']
  unfolding compressImageLossy_def compressImageLossless_def Let_def
  by blast


text \<open>
  The five operations with a tool that writes a file of known size; the second is the
  specification's scenario of a 120 KB output.
\<close>

theorem C9_result_size_witness:
  \<open>fst (compressPDF (writing_env ''/work/out.pdf'' 2048) ''in.pdf'' ''out.pdf''
          (start (files [''/work'', ''/work/in.pdf''] []))) =
     Inr \<lparr>outputPath = ''/work/out.pdf'', compressedSizeKB = 2\<rparr> \<and>
   fst (compressImageLossy (writing_env ''/work/photo_small.jpg'' 122880) ''photo.jpg''
          ''photo_small.jpg'' (Some 40) (start (files [''/work'', ''/work/photo.jpg''] []))) =
     Inr \<lparr>outputPath = ''/work/photo_small.jpg'', compressedSizeKB = 120\<rparr> \<and>
   fst (compressImageLossless (writing_env ''/work/small.png'' 1536) ''photo.png''
          ''small.png'' None (start (files [''/work'', ''/work/photo.png''] []))) =
     Inr \<lparr>outputPath = ''/work/small.png'', compressedSizeKB = 3 / 2\<rparr> \<and>
   fst (compressVideo (writing_env ''/work/out.mp4'' 1048576) ''in.mp4'' ''out.mp4''
          \<lparr>codec = None, crf = None, preset = None, fps = None, scale = None\<rparr>
          (start (files [''/work'', ''/work/in.mp4''] []))) =
     Inr \<lparr>outputPath = ''/work/out.mp4'', compressedSizeKB = 1024\<rparr> \<and>
   fst (compressMP3 (writing_env ''/work/out.mp3'' 512) ''in.mp3'' ''out.mp3''
          \<lparr>bitrate = None, quality = None, mono = None\<rparr>
          (start (files [''/work'', ''/work/in.mp3''] []))) =
     Inr \<lparr>outputPath = ''/work/out.mp3'', compressedSizeKB = 1 / 2\<rparr>\<close>
proof -
  have t: "supportedFormats_test ''/work/photo.jpg''" "supportedFormats_test ''/work/photo.png''"
    "endsWith (toLowerCase ''/work/in.mp3'') ''.mp3''"
    by (simp_all add: supportedFormats_test_iff endsWith_def suffix_to_prefix
        spec_extension_def basename_of_def toLowerCase_def toLowerChar_def char_of_def
        bit_Suc_0_iff)
  have v: "\<exists>cmd. ffmpegCommandVideo ''/work/in.mp4'' ''/work/out.mp4''
      \<lparr>codec = None, crf = None, preset = None, fps = None, scale = None\<rparr> = Inr cmd"
    by (simp add: ffmpegCommandVideo_def videoCodec_def)
  show ?thesis
    using C9_result_size [of "writing_env ''/work/out.pdf'' 2048" "''in.pdf''" "''out.pdf''"
        "start (files [''/work'', ''/work/in.pdf''] [])"
        "\<lparr>outputPath = ''/work/out.pdf'', compressedSizeKB = 2\<rparr>"
        "\<lparr>fsys = snd (tool_writes ''/work/out.pdf'' 2048 [] (files [''/work'', ''/work/in.pdf''] [])),
          spawned = [gsCommand ''/work/in.pdf'' ''/work/out.pdf'']\<rparr>"] v
    by (auto simp add: compressPDF_def compressImageLossy_def compressImageLossless_def
        compressImage_def compressVideo_def compressMP3_def Let_def writing_env_def
        cwd_resolve_def parent_dir_def start_def files_def access_def execPromise_def
        tool_writes_def measureOutput_def stat_size_def wrapError_def t)
qed


end
